theory Spec2Isabelle
  imports Complex_Main "HOL-Library.Word"
begin

section \<open>JavaScript values and strings\<close>

text \<open>
  A JavaScript string is a sequence of UTF-16 code units; \<open>substring\<close> and \<open>length\<close>
  count code units. Strings are modelled as \<^typ>\<open>string\<close>, one list element per code unit.
  Failures (a rejected promise, a thrown \<open>Error\<close>) are values \<open>Inl msg\<close> of a sum type,
  where \<open>msg\<close> is the \<open>message\<close> of the thrown error.
\<close>

type_synonym 'a result = "string + 'a"

text \<open>
  \<open>JSON.parse\<close> is not typed by the payload it reads: whatever value the text denotes is
  returned and flows on as a \<open>LandmarkInfo\<close>. The values it can return, and \<open>undefined\<close>
  for a property that is absent. An object holds each of its keys once; a number is the
  real it denotes (no operation of the pipeline inspects one).
\<close>

datatype jsval =
    JUndefined
  | JNull
  | JBool bool
  | JNum real
  | JStr string
  | JArr "jsval list"
  | JObj "(string \<times> jsval) list"

text \<open>
  The property read \<open>v.name\<close>: a \<open>TypeError\<close> on \<open>null\<close> and \<open>undefined\<close> (the message
  is the one of V8), the property of an object, and \<open>undefined\<close> on a value that has no such
  property (numbers, booleans, strings and arrays have no \<open>name\<close>).
\<close>

definition prop_name :: "jsval \<Rightarrow> jsval result" where
  "prop_name v =
     (case v of
        JNull \<Rightarrow> Inl ''Cannot read properties of null (reading 'name')''
      | JUndefined \<Rightarrow> Inl ''Cannot read properties of undefined (reading 'name')''
      | JObj kvs \<Rightarrow> Inr (case map_of kvs ''name'' of None \<Rightarrow> JUndefined | Some x \<Rightarrow> x)
      | _ \<Rightarrow> Inr JUndefined)"

text \<open>
  The property read \<open>v.k\<close> on a value that is neither \<open>null\<close> nor \<open>undefined\<close>, for
  a key \<open>k\<close> that no prototype defines (\<open>label\<close>, \<open>x\<close>, \<open>pointsOfInterest\<close>, ...).
\<close>

definition js_prop :: "string \<Rightarrow> jsval \<Rightarrow> jsval" where
  "js_prop k v =
     (case v of
        JObj kvs \<Rightarrow> (case map_of kvs k of None \<Rightarrow> JUndefined | Some x \<Rightarrow> x)
      | _ \<Rightarrow> JUndefined)"

text \<open>
  A value interpolated into a template literal: a string is itself, \<open>undefined\<close> is the
  text \<open>undefined\<close>; for every other value the conversion \<open>ToString\<close> of the language is a
  parameter \<open>ts\<close>.
\<close>

definition template_str :: "(jsval \<Rightarrow> string) \<Rightarrow> jsval \<Rightarrow> string" where
  "template_str ts v =
     (case v of JStr s \<Rightarrow> s | JUndefined \<Rightarrow> ''undefined'' | _ \<Rightarrow> ts v)"

text \<open>\<open>s || d\<close> on an optional string: \<open>undefined\<close> and the empty string are falsy.\<close>

definition or_else :: "string option \<Rightarrow> string \<Rightarrow> string" where
  "or_else s d = (case s of None \<Rightarrow> d | Some t \<Rightarrow> if t = [] then d else t)"

text \<open>\<open>xs?.[0]\<close> on an optional array: \<open>undefined\<close> when the array is absent or empty.\<close>

definition first_of :: "'a list option \<Rightarrow> 'a option" where
  "first_of xs = (case xs of None \<Rightarrow> None | Some [] \<Rightarrow> None | Some (x # _) \<Rightarrow> Some x)"

section \<open>Data model (types.ts)\<close>

record Source =
  title :: "string option"
  uri :: "string option"

record DetailedHistory =
  fullStory :: string
  sources :: "Source list"

datatype Stage = Idle | Identifying | Researching | Narrating | Ready






section \<open>Responses of the remote model (the fields the service reads)\<close>

record GroundingChunk =
  web :: "Source option"

record GroundingMetadata =
  groundingChunks :: "GroundingChunk list option"

record Blob =
  data :: "string option"

record Part =
  inlineData :: "Blob option"

record Content =
  parts :: "Part list option"

record Candidate =
  groundingMetadata :: "GroundingMetadata option"
  content :: "Content option"

record GenerateContentResponse =
  resp_text :: "string option"
  candidates :: "Candidate list option"

section \<open>geminiService.ts\<close>

subsection \<open>Stage 1: identifyLandmark\<close>

text \<open>
  \<open>generate\<close> is the remote call: it rejects with a message or resolves to a response.
  \<open>parse\<close> is \<open>JSON.parse\<close>: \<open>None\<close> when it throws. The text parsed is
  \<open>response.text || '{}'\<close>, and the parsed value is returned as it is.
\<close>

definition identifyLandmark ::
  "(string \<Rightarrow> GenerateContentResponse result) \<Rightarrow> (string \<Rightarrow> jsval option) \<Rightarrow> string \<Rightarrow> jsval result"
where
  "identifyLandmark generate parse base64Image =
     (case generate base64Image of
        Inl e \<Rightarrow> Inl e
      | Inr response \<Rightarrow>
          (case parse (or_else (resp_text response) ''{}'') of
             None \<Rightarrow> Inl ''Failed to parse landmark identification data.''
           | Some v \<Rightarrow> Inr v))"

subsection \<open>Stage 2: researchLandmark\<close>

definition research_prompt :: "(jsval \<Rightarrow> string) \<Rightarrow> jsval \<Rightarrow> string" where
  "research_prompt ts landmarkName =
     ''Research the historical significance and interesting facts about '' @
     template_str ts landmarkName @
     ''. Provide a detailed and engaging historical narrative. Focus on why it is important today.''"

text \<open>\<open>response.candidates?.[0]?.groundingMetadata?.groundingChunks || []\<close>\<close>

definition groundingChunks_of :: "GenerateContentResponse \<Rightarrow> GroundingChunk list" where
  "groundingChunks_of response =
     (case Option.bind (Option.bind (first_of (candidates response)) groundingMetadata)
             groundingChunks of
        None \<Rightarrow> []
      | Some cs \<Rightarrow> cs)"

definition sources_of :: "GroundingChunk list \<Rightarrow> Source list" where
  "sources_of cs =
     map (\<lambda>chunk. \<lparr>title = title (the (web chunk)), uri = uri (the (web chunk))\<rparr>)
       (filter (\<lambda>chunk. web chunk \<noteq> None) cs)"

definition researchLandmark ::
  "(string \<Rightarrow> GenerateContentResponse result) \<Rightarrow> (jsval \<Rightarrow> string) \<Rightarrow> jsval
     \<Rightarrow> DetailedHistory result"
where
  "researchLandmark generate ts landmarkName =
     (case generate (research_prompt ts landmarkName) of
        Inl e \<Rightarrow> Inl e
      | Inr response \<Rightarrow>
          Inr \<lparr>fullStory = or_else (resp_text response) ''No information found.'',
               sources = sources_of (groundingChunks_of response)\<rparr>)"

subsection \<open>Stage 3: narrateHistory\<close>

definition narration_prompt :: "string \<Rightarrow> string" where
  "narration_prompt txt =
     ''Speak in a warm, professional tour guide voice: '' @ take 1000 txt"

text \<open>\<open>response.candidates?.[0]?.content?.parts?.[0]?.inlineData?.data\<close>\<close>

definition base64Audio_of :: "GenerateContentResponse \<Rightarrow> string option" where
  "base64Audio_of response =
     Option.bind (Option.bind (Option.bind (Option.bind (first_of (candidates response)) content)
        (\<lambda>c. first_of (parts c))) inlineData) data"

definition narrateHistory ::
  "(string \<Rightarrow> GenerateContentResponse result) \<Rightarrow> string \<Rightarrow> string result"
where
  "narrateHistory generate txt =
     (case generate (narration_prompt txt) of
        Inl e \<Rightarrow> Inl e
      | Inr response \<Rightarrow>
          (case base64Audio_of response of
             None \<Rightarrow> Inl ''No audio data generated.''
           | Some d \<Rightarrow> if d = [] then Inl ''No audio data generated.'' else Inr d))"

section \<open>utils.ts (decodeBase64, decodeAudioData)\<close>

type_synonym byte = "8 word"

record AudioBuffer =
  sampleRate :: nat
  channelData :: "real list"

record AudioContext =
  ctx_sampleRate :: nat

text \<open>
  Modelled from the spec: \<open>decodeAudioSamples\<close> (\<open>decodeAudioData\<close> of utils.ts, which is
  not among the sources). The bytes are read as little-endian signed 16-bit integers, two
  bytes a sample, each divided by 32768; an odd trailing byte is dropped; the samples are
  one channel at the given rate.
\<close>

fun pcm16_samples :: "byte list \<Rightarrow> real list" where
  "pcm16_samples (lo # hi # rest) =
     real_of_int (sint (word_cat hi lo :: 16 word)) / 32768 # pcm16_samples rest"
| "pcm16_samples _ = []"

definition decodeAudioSamples :: "byte list \<Rightarrow> nat \<Rightarrow> AudioBuffer" where
  "decodeAudioSamples bytes rate = \<lparr>sampleRate = rate, channelData = pcm16_samples bytes\<rparr>"

text \<open>
  A little-endian signed 16-bit integer written out in arithmetic: the unsigned value of
  the two bytes, less \<open>2 ^ 16\<close> from \<open>2 ^ 15\<close> on.
\<close>

definition int16_le :: "byte \<Rightarrow> byte \<Rightarrow> int" where
  "int16_le lo hi = (let u = uint lo + 256 * uint hi in if u < 32768 then u else u - 65536)"

text \<open>
  Modelled from the spec: \<open>decodeBase64\<close> of utils.ts, the standard base64 decoding
  (RFC 4648, padded), failing with \<open>MalformedPayload\<close> on a text that is not base64.
\<close>

definition b64_alphabet :: string where
  "b64_alphabet = ''ABCDEFGHIJKLMNOPQRSTUVWXYZabcdefghijklmnopqrstuvwxyz0123456789+/''"

fun index_of :: "'a \<Rightarrow> 'a list \<Rightarrow> nat option" where
  "index_of x [] = None"
| "index_of x (y # ys) = (if x = y then Some 0 else map_option Suc (index_of x ys))"

definition b64_index :: "char \<Rightarrow> nat option" where
  "b64_index c = index_of c b64_alphabet"

fun b64_quads :: "string \<Rightarrow> byte list option" where
  "b64_quads [] = Some []"
| "b64_quads (a # b # c # d # rest) =
     (if rest = [] \<and> c = CHR ''='' \<and> d = CHR ''='' then
        (case (b64_index a, b64_index b) of
           (Some x, Some y) \<Rightarrow> Some [of_nat ((x * 64 + y) div 16)]
         | _ \<Rightarrow> None)
      else if rest = [] \<and> d = CHR ''='' then
        (case (b64_index a, b64_index b, b64_index c) of
           (Some x, Some y, Some z) \<Rightarrow>
             (let n = (x * 64 + y) * 64 + z in Some [of_nat (n div 1024), of_nat (n div 4)])
         | _ \<Rightarrow> None)
      else
        (case (b64_index a, b64_index b, b64_index c, b64_index d) of
           (Some x, Some y, Some z, Some u) \<Rightarrow>
             (let n = ((x * 64 + y) * 64 + z) * 64 + u in
              case b64_quads rest of
                None \<Rightarrow> None
              | Some bs \<Rightarrow> Some (of_nat (n div 65536) # of_nat (n div 256) # of_nat n # bs))
         | _ \<Rightarrow> None))"
| "b64_quads _ = None"

definition decodeBase64 :: "string \<Rightarrow> byte list result" where
  "decodeBase64 s = (case b64_quads s of None \<Rightarrow> Inl ''MalformedPayload'' | Some bs \<Rightarrow> Inr bs)"

section \<open>App.tsx: the tour state and the playback references\<close>

text \<open>
  \<open>landmark\<close> holds the value \<open>identifyLandmark\<close> resolved to, \<open>JNull\<close> for \<open>null\<close>.
  The field \<open>image\<close> is named \<open>image'\<close>.
\<close>

record TourState =
  image' :: "string option"
  landmark :: jsval
  history :: "DetailedHistory option"
  audioBuffer :: "AudioBuffer option"
  loadingStage :: Stage
  error :: "string option"

definition initial_state :: TourState where
  "initial_state =
     \<lparr>image' = None, landmark = JNull, history = None, audioBuffer = None,
      loadingStage = Idle, error = None\<rparr>"

text \<open>
  An \<open>AudioBufferSourceNode\<close>: its buffer and whether it has been started and is playing,
  or has been stopped or has played to its end.
\<close>

datatype SourceState = Unstarted | Playing | Finished

record AudioBufferSourceNode =
  buffer :: "AudioBuffer option"
  status :: SourceState

text \<open>
  The component: the state of \<open>useState\<close>, the two refs, and every source node created so
  far; \<open>audioSourceRef\<close> is an index into \<open>nodes\<close>. \<open>triggerHaptic\<close> touches none of them.
  \<open>mounted\<close> says that React still holds the component: it unmounts the root when a
  render throws, and then \<open>state\<close> is what the last render was given.
\<close>

record world =
  state :: TourState
  audioContextRef :: "AudioContext option"
  audioSourceRef :: "nat option"
  nodes :: "AudioBufferSourceNode list"
  mounted :: bool

definition initial_world :: world where
  "initial_world =
     \<lparr>state = initial_state, audioContextRef = None, audioSourceRef = None, nodes = [],
      mounted = True\<rparr>"

definition setState :: "(TourState \<Rightarrow> TourState) \<Rightarrow> world \<Rightarrow> world" where
  "setState f w = w\<lparr>state := f (state w)\<rparr>"

definition initAudioContext :: "world \<Rightarrow> world" where
  "initAudioContext w =
     (case audioContextRef w of
        None \<Rightarrow> w\<lparr>audioContextRef := Some \<lparr>ctx_sampleRate = 24000\<rparr>\<rparr>
      | Some _ \<Rightarrow> w)"

text \<open>\<open>stop()\<close> raises \<open>InvalidStateError\<close> on a node that was never started.\<close>

definition stop_node :: "AudioBufferSourceNode \<Rightarrow> AudioBufferSourceNode result" where
  "stop_node n =
     (if status n = Unstarted then Inl ''InvalidStateError'' else Inr (n\<lparr>status := Finished\<rparr>))"

text \<open>\<open>if (audioSourceRef.current) { try { audioSourceRef.current.stop(); } catch(e) {} }\<close>\<close>

definition stop_current :: "world \<Rightarrow> world" where
  "stop_current w =
     (case audioSourceRef w of
        None \<Rightarrow> w
      | Some h \<Rightarrow>
          (if h < length (nodes w) then
             (case stop_node (nodes w ! h) of
                Inl _ \<Rightarrow> w
              | Inr n \<Rightarrow> w\<lparr>nodes := (nodes w)[h := n]\<rparr>)
           else w))"

definition playNarration :: "AudioBuffer \<Rightarrow> world \<Rightarrow> world" where
  "playNarration buf w =
     (case audioContextRef w of
        None \<Rightarrow> w
      | Some ctx \<Rightarrow>
          (let w1 = stop_current w;
               source = length (nodes w1);
               created = \<lparr>buffer = None, status = Unstarted\<rparr>;
               bound = created\<lparr>buffer := Some buf\<rparr>;
               started = bound\<lparr>status := Playing\<rparr>
           in w1\<lparr>nodes := nodes w1 @ [started], audioSourceRef := Some source\<rparr>))"

definition resetTour :: "world \<Rightarrow> world" where
  "resetTour w = setState (\<lambda>_. initial_state) (stop_current w)"

text \<open>The handles that are playing, and the buffer each is bound to.\<close>

definition active_handles :: "world \<Rightarrow> nat list" where
  "active_handles w = filter (\<lambda>h. status (nodes w ! h) = Playing) [0 ..< length (nodes w)]"

section \<open>App.tsx: the view\<close>

text \<open>\<open>s && ...\<close> on an optional string: \<open>null\<close> and the empty string are falsy.\<close>

definition truthy :: "string option \<Rightarrow> bool" where
  "truthy s = (case s of None \<Rightarrow> False | Some t \<Rightarrow> t \<noteq> [])"

text \<open>
  What React accepts as a child in \<open>{v}\<close>: text and numbers, nothing for booleans,
  \<open>null\<close> and \<open>undefined\<close>, the elements of an array; an object is refused with an error.
\<close>

fun child_ok :: "jsval \<Rightarrow> bool" where
  "child_ok (JObj kvs) = False"
| "child_ok (JArr xs) = (\<forall>x \<in> set xs. child_ok x)"
| "child_ok v = True"

text \<open>
  One point of interest in the two \<open>pointsOfInterest.map\<close> of the view: \<open>poi.x\<close> and
  \<open>poi.y\<close> are read for the marker, \<open>{poi.label}\<close> and \<open>{poi.description}\<close> are children.
\<close>

definition poi_renders :: "jsval \<Rightarrow> bool" where
  "poi_renders poi =
     (poi \<noteq> JNull \<and> poi \<noteq> JUndefined \<and>
      child_ok (js_prop ''label'' poi) \<and> child_ok (js_prop ''description'' poi))"

text \<open>
  \<open>state.landmark?.pointsOfInterest.map(...)\<close> and \<open>{state.landmark?.name}\<close>: nothing is
  read of a \<open>null\<close> landmark; of any other, \<open>pointsOfInterest\<close> must be an array, or
  \<open>.map\<close> is not a function.
\<close>

definition landmark_renders :: "jsval \<Rightarrow> bool" where
  "landmark_renders lm =
     (case lm of
        JNull \<Rightarrow> True
      | JUndefined \<Rightarrow> True
      | _ \<Rightarrow>
          (case js_prop ''pointsOfInterest'' lm of
             JArr ps \<Rightarrow> list_all poi_renders ps \<and> child_ok (js_prop ''name'' lm)
           | _ \<Rightarrow> False))"

text \<open>
  The render does not throw. The landmark is read only in the block under
  \<open>state.image && !state.error\<close>; the rest of the view shows strings.
\<close>

definition view_renders :: "TourState \<Rightarrow> bool" where
  "view_renders s =
     (if truthy (image' s) \<and> \<not> truthy (error s) then landmark_renders (landmark s) else True)"

text \<open>
  What is on the page decides which handler can be called: the file input is rendered
  only while the stage is idle; \<open>resetTour\<close> is on the close button (with an image), on the
  retry button (with an error) and on the button beside the replay (stage not idle); the
  replay button needs a buffer and a stage that is not idle.
\<close>

definition upload_input_rendered :: "TourState \<Rightarrow> bool" where
  "upload_input_rendered s = (loadingStage s = Idle)"

definition reset_button_rendered :: "TourState \<Rightarrow> bool" where
  "reset_button_rendered s = (truthy (image' s) \<or> truthy (error s) \<or> loadingStage s \<noteq> Idle)"

definition replay_button_rendered :: "TourState \<Rightarrow> bool" where
  "replay_button_rendered s = (loadingStage s \<noteq> Idle \<and> audioBuffer s \<noteq> None)"

text \<open>
  A handler, or the part of an async handler between two awaits, has taken the component
  from \<open>w\<close> to \<open>w'\<close>; then React renders the new state. On a component that was unmounted
  the state updates are dropped (what the handler did to the refs and the sources stays);
  a render that throws unmounts the component.
\<close>

definition settle :: "world \<Rightarrow> world \<Rightarrow> world" where
  "settle w w' =
     (if mounted w then
        (if view_renders (state w') then w' else w'\<lparr>mounted := False\<rparr>)
      else w'\<lparr>state := state w\<rparr>)"

section \<open>App.tsx: handleFileUpload\<close>

text \<open>
  What the run calls outside the component: the file reader and the two decoders of
  utils.ts, the three remote calls, \<open>JSON.parse\<close> and \<open>ToString\<close>.
\<close>

record env =
  fileToBase64 :: "byte list \<Rightarrow> string result"
  generate_identify :: "string \<Rightarrow> GenerateContentResponse result"
  generate_research :: "string \<Rightarrow> GenerateContentResponse result"
  generate_speech :: "string \<Rightarrow> GenerateContentResponse result"
  JSON_parse :: "string \<Rightarrow> jsval option"
  ToString :: "jsval \<Rightarrow> string"
  decodeBase64_of :: "string \<Rightarrow> byte list result"
  decodeAudioData :: "byte list \<Rightarrow> AudioContext option \<Rightarrow> AudioBuffer result"

text \<open>The updates of the state, in the order of the source.\<close>

definition upload_begin :: "world \<Rightarrow> world" where
  "upload_begin w =
     initAudioContext
       (setState (\<lambda>prev. prev\<lparr>loadingStage := Identifying, image' := None, error := None\<rparr>) w)"

definition on_base64 :: "string \<Rightarrow> world \<Rightarrow> world" where
  "on_base64 base64 w =
     setState (\<lambda>prev. prev\<lparr>image' := Some (''data:image/jpeg;base64,'' @ base64)\<rparr>) w"

definition on_landmark :: "jsval \<Rightarrow> world \<Rightarrow> world" where
  "on_landmark lm w = setState (\<lambda>prev. prev\<lparr>landmark := lm, loadingStage := Researching\<rparr>) w"

definition on_history :: "DetailedHistory \<Rightarrow> world \<Rightarrow> world" where
  "on_history h w = setState (\<lambda>prev. prev\<lparr>history := Some h, loadingStage := Narrating\<rparr>) w"

definition on_buffer :: "AudioBuffer \<Rightarrow> world \<Rightarrow> world" where
  "on_buffer buf w =
     playNarration buf
       (setState (\<lambda>prev. prev\<lparr>audioBuffer := Some buf, loadingStage := Ready\<rparr>) w)"

definition on_catch :: "string \<Rightarrow> world \<Rightarrow> world" where
  "on_catch msg w = setState (\<lambda>prev. prev\<lparr>error := Some msg, loadingStage := Idle\<rparr>) w"

definition narration_text :: "(jsval \<Rightarrow> string) \<Rightarrow> jsval \<Rightarrow> DetailedHistory \<Rightarrow> string" where
  "narration_text ts nm h = template_str ts nm @ ''. '' @ fullStory h"

text \<open>
  A run that nothing interrupts: every await resumes before any other handler runs, and
  React renders at each await. A \<open>TypeError\<close> of \<open>landmark.name\<close> reaches the \<open>catch\<close> before
  any render.
\<close>

definition handleFileUpload :: "env \<Rightarrow> byte list option \<Rightarrow> world \<Rightarrow> world" where
  "handleFileUpload E file w =
     (case file of
        None \<Rightarrow> w
      | Some f \<Rightarrow>
          (let w0 = settle w (upload_begin w) in
           case fileToBase64 E f of
             Inl e \<Rightarrow> settle w0 (on_catch e w0)
           | Inr base64 \<Rightarrow>
               (let w1 = settle w0 (on_base64 base64 w0) in
                case identifyLandmark (generate_identify E) (JSON_parse E) base64 of
                  Inl e \<Rightarrow> settle w1 (on_catch e w1)
                | Inr lm \<Rightarrow>
                    (case prop_name lm of
                       Inl e \<Rightarrow> settle w1 (on_catch e (on_landmark lm w1))
                     | Inr nm \<Rightarrow>
                         (let w2 = settle w1 (on_landmark lm w1) in
                          case researchLandmark (generate_research E) (ToString E) nm of
                            Inl e \<Rightarrow> settle w2 (on_catch e w2)
                          | Inr h \<Rightarrow>
                              (let w3 = settle w2 (on_history h w2) in
                               case narrateHistory (generate_speech E)
                                      (narration_text (ToString E) nm h) of
                                 Inl e \<Rightarrow> settle w3 (on_catch e w3)
                               | Inr audioBase64 \<Rightarrow>
                                   (case decodeBase64_of E audioBase64 of
                                      Inl e \<Rightarrow> settle w3 (on_catch e w3)
                                    | Inr audioData \<Rightarrow>
                                        (case decodeAudioData E audioData (audioContextRef w3) of
                                           Inl e \<Rightarrow> settle w3 (on_catch e w3)
                                         | Inr buf \<Rightarrow> settle w3 (on_buffer buf w3)))))))))"

section \<open>App.tsx: handlers that interleave\<close>

text \<open>
  \<open>handleFileUpload\<close> is an async function: at each \<open>await\<close> it is suspended and other
  handlers may run. A suspended run is the await it waits at, with the locals it still
  needs (\<open>landmark.name\<close> is read again after the research stage, with the same result).
\<close>

datatype pending =
    AwaitFileToBase64 "byte list"
  | AwaitIdentify string
  | AwaitResearch jsval
  | AwaitNarrate string
  | AwaitDecodeAudio "byte list" "AudioContext option"

text \<open>The awaited call settles and the run goes on to its next await, or ends.\<close>

definition resume :: "env \<Rightarrow> pending \<Rightarrow> world \<Rightarrow> world \<times> pending option" where
  "resume E p w =
     (case p of
        AwaitFileToBase64 f \<Rightarrow>
          (case fileToBase64 E f of
             Inl e \<Rightarrow> (on_catch e w, None)
           | Inr base64 \<Rightarrow> (on_base64 base64 w, Some (AwaitIdentify base64)))
      | AwaitIdentify base64 \<Rightarrow>
          (case identifyLandmark (generate_identify E) (JSON_parse E) base64 of
             Inl e \<Rightarrow> (on_catch e w, None)
           | Inr lm \<Rightarrow>
               (let w2 = on_landmark lm w in
                case prop_name lm of
                  Inl e \<Rightarrow> (on_catch e w2, None)
                | Inr nm \<Rightarrow> (w2, Some (AwaitResearch nm))))
      | AwaitResearch nm \<Rightarrow>
          (case researchLandmark (generate_research E) (ToString E) nm of
             Inl e \<Rightarrow> (on_catch e w, None)
           | Inr h \<Rightarrow> (on_history h w, Some (AwaitNarrate (narration_text (ToString E) nm h))))
      | AwaitNarrate txt \<Rightarrow>
          (case narrateHistory (generate_speech E) txt of
             Inl e \<Rightarrow> (on_catch e w, None)
           | Inr audioBase64 \<Rightarrow>
               (case decodeBase64_of E audioBase64 of
                  Inl e \<Rightarrow> (on_catch e w, None)
                | Inr audioData \<Rightarrow> (w, Some (AwaitDecodeAudio audioData (audioContextRef w)))))
      | AwaitDecodeAudio audioData ctx \<Rightarrow>
          (case decodeAudioData E audioData ctx of
             Inl e \<Rightarrow> (on_catch e w, None)
           | Inr buf \<Rightarrow> (on_buffer buf w, None)))"

text \<open>
  What can happen to the component: a file is chosen (\<open>handleFileUpload\<close> starts), a
  suspended run resumes, \<open>resetTour\<close>, the replay button (\<open>playNarration(state.audioBuffer!)\<close>),
  and a source playing to its end. The three that come from the page happen only while
  their control is rendered on a mounted component.
\<close>

datatype event =
    Upload "byte list option"
  | Resume nat
  | Reset
  | Replay
  | PlaybackEnded nat

fun step :: "env \<Rightarrow> event \<Rightarrow> world \<times> pending list \<Rightarrow> world \<times> pending list" where
  "step E (Upload chosen) (w, ps) =
     (if mounted w \<and> upload_input_rendered (state w) then
        (case chosen of
           None \<Rightarrow> (w, ps)
         | Some f \<Rightarrow> (settle w (upload_begin w), ps @ [AwaitFileToBase64 f]))
      else (w, ps))"
| "step E (Resume i) (w, ps) =
     (if i < length ps then
        (case resume E (ps ! i) w of
           (w', None) \<Rightarrow> (settle w w', take i ps @ drop (Suc i) ps)
         | (w', Some p) \<Rightarrow> (settle w w', ps[i := p]))
      else (w, ps))"
| "step E Reset (w, ps) =
     (if mounted w \<and> reset_button_rendered (state w) then (settle w (resetTour w), ps)
      else (w, ps))"
| "step E Replay (w, ps) =
     (if mounted w \<and> replay_button_rendered (state w) then
        (case audioBuffer (state w) of
           None \<Rightarrow> (w, ps)
         | Some buf \<Rightarrow> (playNarration buf w, ps))
      else (w, ps))"
| "step E (PlaybackEnded h) (w, ps) =
     (if h < length (nodes w) \<and> status (nodes w ! h) = Playing
      then (w\<lparr>nodes := (nodes w)[h := (nodes w ! h)\<lparr>status := Finished\<rparr>]\<rparr>, ps)
      else (w, ps))"

definition run_events :: "env \<Rightarrow> event list \<Rightarrow> world \<times> pending list" where
  "run_events E evs = foldl (\<lambda>s ev. step E ev s) (initial_world, []) evs"

text \<open>
  At most the source that \<open>audioSourceRef\<close> holds is playing, and the ref holds a source
  that exists.
\<close>

definition playback_inv :: "world \<Rightarrow> bool" where
  "playback_inv w =
     (set (active_handles w) \<subseteq> set_option (audioSourceRef w) \<and>
      set_option (audioSourceRef w) \<subseteq> {0 ..< length (nodes w)})"

section \<open>A concrete session\<close>

definition eiffel_json :: string where
  "eiffel_json = ''{\"name\":\"Eiffel Tower\",\"shortDescription\":\"Iron tower\",\"pointsOfInterest\":[{\"label\":\"Summit\",\"description\":\"Top deck\",\"x\":50,\"y\":10}]}''"

definition eiffel :: jsval where
  "eiffel = JObj [(''name'', JStr ''Eiffel Tower''), (''shortDescription'', JStr ''Iron tower''),
                  (''pointsOfInterest'',
                     JArr [JObj [(''label'', JStr ''Summit''), (''description'', JStr ''Top deck''),
                                 (''x'', JNum 50), (''y'', JNum 10)]])]"

text \<open>
  \<open>JSON.parse\<close> restricted to the texts that occur in the session: the three it reads,
  and \<open>oops\<close>, on which it throws.
\<close>

definition parse_session :: "string \<Rightarrow> jsval option" where
  "parse_session t =
     (if t = eiffel_json then Some eiffel
      else if t = ''{}'' then Some (JObj [])
      else if t = ''null'' then Some JNull
      else None)"

definition wikipedia :: Source where
  "wikipedia = \<lparr>title = Some ''Wikipedia'', uri = Some ''https://en.wikipedia.org/wiki/Eiffel_Tower''\<rparr>"

definition research_response :: GenerateContentResponse where
  "research_response =
     \<lparr>resp_text = Some ''Built for the 1889 World's Fair.'',
      candidates = Some [\<lparr>groundingMetadata =
          Some \<lparr>groundingChunks = Some [\<lparr>web = Some wikipedia\<rparr>, \<lparr>web = None\<rparr>]\<rparr>,
        content = None\<rparr>]\<rparr>"

definition audio_response :: "string \<Rightarrow> GenerateContentResponse" where
  "audio_response d =
     \<lparr>resp_text = None,
      candidates = Some [\<lparr>groundingMetadata = None,
        content = Some \<lparr>parts = Some [\<lparr>inlineData = Some \<lparr>data = Some d\<rparr>\<rparr>]\<rparr>\<rparr>]\<rparr>"

definition photo :: "byte list" where
  "photo = [0xFF, 0xD8, 0xFF]"

definition session_env :: env where
  "session_env =
     \<lparr>fileToBase64 = (\<lambda>f. Inr ''/9j/''),
      generate_identify = (\<lambda>b. Inr \<lparr>resp_text = Some eiffel_json, candidates = None\<rparr>),
      generate_research = (\<lambda>p. Inr research_response),
      generate_speech = (\<lambda>p. Inr (audio_response ''AAD/fw=='')),
      JSON_parse = parse_session,
      ToString = (\<lambda>v. ''[object Object]''),
      decodeBase64_of = decodeBase64,
      decodeAudioData = (\<lambda>bytes ctx. Inr (decodeAudioSamples bytes 24000))\<rparr>"

definition session_history :: DetailedHistory where
  "session_history = \<lparr>fullStory = ''Built for the 1889 World's Fair.'', sources = [wikipedia]\<rparr>"

definition session_buffer :: AudioBuffer where
  "session_buffer = \<lparr>sampleRate = 24000, channelData = [0, 32767 / 32768]\<rparr>"

text \<open>Worlds of the session: before any source was started, and while the narration plays.\<close>

definition quiet_buffer :: AudioBuffer where
  "quiet_buffer = \<lparr>sampleRate = 24000, channelData = [0]\<rparr>"

definition unstarted_world :: world where
  "unstarted_world =
     \<lparr>state = initial_state, audioContextRef = Some \<lparr>ctx_sampleRate = 24000\<rparr>,
      audioSourceRef = Some 0, nodes = [\<lparr>buffer = None, status = Unstarted\<rparr>],
      mounted = True\<rparr>"

definition session_state :: TourState where
  "session_state =
     \<lparr>image' = Some ''data:image/jpeg;base64,/9j/'', landmark = eiffel,
      history = Some session_history, audioBuffer = Some session_buffer,
      loadingStage = Ready, error = None\<rparr>"

definition playing_world :: world where
  "playing_world =
     \<lparr>state = session_state, audioContextRef = Some \<lparr>ctx_sampleRate = 24000\<rparr>,
      audioSourceRef = Some 0, nodes = [\<lparr>buffer = Some session_buffer, status = Playing\<rparr>],
      mounted = True\<rparr>"

text \<open>The session with one call failing, or answering something else.\<close>

definition offline_identify_env :: env where
  "offline_identify_env = session_env\<lparr>generate_identify := (\<lambda>b. Inl ''Quota exceeded'')\<rparr>"

definition offline_research_env :: env where
  "offline_research_env = session_env\<lparr>generate_research := (\<lambda>p. Inl ''Network error'')\<rparr>"

definition silent_env :: env where
  "silent_env = session_env\<lparr>generate_speech := (\<lambda>p. Inr \<lparr>resp_text = None, candidates = None\<rparr>)\<rparr>"

definition empty_identify_env :: env where
  "empty_identify_env =
     session_env\<lparr>generate_identify := (\<lambda>b. Inr \<lparr>resp_text = None, candidates = None\<rparr>),
                 generate_research := (\<lambda>p. Inr \<lparr>resp_text = Some p, candidates = None\<rparr>)\<rparr>"

text \<open>
  Once a run has begun the audio context exists: without it no run is in flight and the
  state holds no buffer.
\<close>

definition ctx_ready :: "world \<times> pending list \<Rightarrow> bool" where
  "ctx_ready s =
     (audioContextRef (fst s) = None \<longrightarrow> snd s = [] \<and> audioBuffer (state (fst s)) = None)"

section \<open>Properties of the service functions\<close>

lemma length_narration_prompt:
  "length (narration_prompt txt) = 48 + min (length txt) 1000"
  by (simp add: narration_prompt_def)

section \<open>The decoder\<close>

lemma uint_cat16: "uint (word_cat hi lo :: 16 word) = uint (lo::byte) + 256 * uint (hi::byte)"
proof -
  have "uint (word_cat hi lo :: 16 word) = concat_bit 8 (uint lo) (uint hi) mod 2 ^ 16"
    by (simp add: word_cat_eq' uint_word_of_int take_bit_eq_mod)
  also have "concat_bit 8 (uint lo) (uint hi) = uint lo + 256 * uint hi"
  proof -
    have "uint lo < 256" "0 \<le> uint lo"
      using uint_lt2p [of lo] by simp_all
    then show ?thesis
      by (simp add: concat_bit_eq take_bit_eq_mod push_bit_eq_mult)
  qed
  also have "(uint lo + 256 * uint hi) mod 2 ^ 16 = uint lo + 256 * uint hi"
  proof -
    have "uint lo < 256" "uint hi < 256" "0 \<le> uint lo" "0 \<le> uint hi"
      using uint_lt2p [of lo] uint_lt2p [of hi] by simp_all
    then show ?thesis by simp
  qed
  finally show ?thesis .
qed

lemma sint_cat16: "sint (word_cat hi lo :: 16 word) = int16_le lo hi"
proof -
  have "sint (word_cat hi lo :: 16 word) = signed_take_bit 15 (uint (word_cat hi lo :: 16 word))"
    by (simp add: sint_uint)
  also have "\<dots> = int16_le lo hi"
  proof -
    have b: "uint lo < 256" "uint hi < 256" "0 \<le> uint lo" "0 \<le> uint hi"
      using uint_lt2p [of lo] uint_lt2p [of hi] by simp_all
    define u where "u = uint lo + 256 * uint hi"
    have u: "0 \<le> u" "u < 65536"
      using b by (simp_all add: u_def)
    have "signed_take_bit 15 u = (u + 32768) mod 65536 - 32768"
      by (simp add: signed_take_bit_eq_take_bit_shift take_bit_eq_mod)
    also have "\<dots> = (if u < 32768 then u else u - 65536)"
    proof (cases "u < 32768")
      case True
      then have "(u + 32768) mod 65536 = u + 32768"
        using u by simp
      with True show ?thesis by simp
    next
      case False
      have "u + 32768 = (u - 32768) + 65536"
        by simp
      then have "(u + 32768) mod 65536 = ((u - 32768) + 65536) mod 65536"
        by (rule arg_cong)
      also have "\<dots> = (u - 32768) mod 65536"
        by (rule mod_add_self2)
      also have "\<dots> = u - 32768"
        using False u by (intro mod_pos_pos_trivial) simp_all
      finally show ?thesis using False by simp
    qed
    finally show ?thesis
      unfolding uint_cat16 int16_le_def Let_def u_def .
  qed
  finally show ?thesis .
qed

lemma length_pcm16_samples: "length (pcm16_samples bs) = length bs div 2"
  by (induction bs rule: pcm16_samples.induct) simp_all

lemma nth_pcm16_samples:
  "i < length bs div 2 \<Longrightarrow>
   pcm16_samples bs ! i = real_of_int (sint (word_cat (bs ! (2 * i + 1)) (bs ! (2 * i)) :: 16 word)) / 32768"
proof (induction bs arbitrary: i rule: pcm16_samples.induct)
  case (1 lo hi rest)
  then show ?case by (cases i) simp_all
qed simp_all

section \<open>Playback and reset\<close>

lemma setState_fields [simp]:
  "state (setState f w) = f (state w)"
  "audioContextRef (setState f w) = audioContextRef w"
  "audioSourceRef (setState f w) = audioSourceRef w"
  "nodes (setState f w) = nodes w"
  "mounted (setState f w) = mounted w"
  by (simp_all add: setState_def)

lemma setState_setState: "setState f (setState g w) = setState (f \<circ> g) w"
  by (simp add: setState_def)

lemma initAudioContext_fields [simp]:
  "state (initAudioContext w) = state w"
  "audioSourceRef (initAudioContext w) = audioSourceRef w"
  "nodes (initAudioContext w) = nodes w"
  "audioContextRef (initAudioContext w) \<noteq> None"
  "mounted (initAudioContext w) = mounted w"
  by (simp_all add: initAudioContext_def split: option.splits)

lemma initAudioContext_idem: "audioContextRef w \<noteq> None \<Longrightarrow> initAudioContext w = w"
  by (auto simp: initAudioContext_def split: option.splits)

lemma stop_current_fields [simp]:
  "state (stop_current w) = state w"
  "audioContextRef (stop_current w) = audioContextRef w"
  "audioSourceRef (stop_current w) = audioSourceRef w"
  "length (nodes (stop_current w)) = length (nodes w)"
  "mounted (stop_current w) = mounted w"
  by (simp_all add: stop_current_def split: option.splits sum.splits)

lemma nth_stop_current:
  "h < length (nodes w) \<Longrightarrow>
   nodes (stop_current w) ! h =
     (if audioSourceRef w = Some h \<and> status (nodes w ! h) \<noteq> Unstarted
      then (nodes w ! h)\<lparr>status := Finished\<rparr> else nodes w ! h)"
  by (auto simp: stop_current_def stop_node_def nth_list_update split: option.splits)

lemma stop_current_swallows:
  assumes "audioSourceRef w = Some h" and "h < length (nodes w)"
    and "status (nodes w ! h) = Unstarted"
  shows "stop_node (nodes w ! h) = Inl ''InvalidStateError''" and "stop_current w = w"
  using assms by (simp_all add: stop_current_def stop_node_def)

lemma stop_current_stopped:
  assumes "audioSourceRef w = Some h" and "h < length (nodes w)"
    and "status (nodes w ! h) = Finished"
  shows "stop_current w = w"
  using assms by (simp add: stop_current_def stop_node_def list_update_same_conv)

lemma stop_current_setState: "stop_current (setState f w) = setState f (stop_current w)"
  by (simp add: stop_current_def setState_def split: option.splits sum.splits)

lemma stop_current_idem: "stop_current (stop_current w) = stop_current w"
  by (auto simp: stop_current_def stop_node_def split: option.splits)

lemma active_handles_Nil_iff:
  "active_handles w = [] \<longleftrightarrow> (\<forall>h < length (nodes w). status (nodes w ! h) \<noteq> Playing)"
  by (auto simp: active_handles_def filter_empty_conv)

lemma set_active_handles:
  "set (active_handles w) = {h. h < length (nodes w) \<and> status (nodes w ! h) = Playing}"
  by (auto simp: active_handles_def)

lemma active_handles_stop_current:
  assumes "playback_inv w"
  shows "active_handles (stop_current w) = []"
proof -
  have "status (nodes (stop_current w) ! h) \<noteq> Playing" if "h < length (nodes w)" for h
  proof (cases "status (nodes w ! h) = Playing")
    case True
    with that assms have "audioSourceRef w = Some h"
      by (auto simp: playback_inv_def set_active_handles)
    with that True show ?thesis by (simp add: nth_stop_current)
  next
    case False
    with that show ?thesis by (simp add: nth_stop_current)
  qed
  then show ?thesis by (simp add: active_handles_Nil_iff)
qed

lemma playNarration_fields [simp]:
  "state (playNarration buf w) = state w"
  "audioContextRef (playNarration buf w) = audioContextRef w"
  "mounted (playNarration buf w) = mounted w"
  by (simp_all add: playNarration_def Let_def split: option.splits)

lemma playNarration_started:
  assumes "audioContextRef w \<noteq> None"
  shows "nodes (playNarration buf w) = nodes (stop_current w) @ [\<lparr>buffer = Some buf, status = Playing\<rparr>]"
    and "audioSourceRef (playNarration buf w) = Some (length (nodes w))"
  using assms by (auto simp: playNarration_def Let_def)

lemma active_handles_snoc:
  "active_handles (w\<lparr>nodes := ns @ [n]\<rparr>) =
     active_handles (w\<lparr>nodes := ns\<rparr>) @ (if status n = Playing then [length ns] else [])"
proof -
  have "filter (\<lambda>h. status ((ns @ [n]) ! h) = Playing) [0 ..< length ns] =
        filter (\<lambda>h. status (ns ! h) = Playing) [0 ..< length ns]"
    by (rule filter_cong) (simp_all add: nth_append)
  then show ?thesis by (simp add: active_handles_def)
qed

lemma active_handles_cong: "nodes w = nodes w' \<Longrightarrow> active_handles w = active_handles w'"
  by (simp add: active_handles_def)

lemma active_handles_playNarration:
  assumes "playback_inv w" and "audioContextRef w \<noteq> None"
  shows "active_handles (playNarration buf w) = [length (nodes w)]"
proof -
  let ?n = "\<lparr>buffer = Some buf, status = Playing\<rparr>"
  have "active_handles (playNarration buf w) =
        active_handles ((playNarration buf w)\<lparr>nodes := nodes (stop_current w) @ [?n]\<rparr>)"
    by (rule active_handles_cong) (simp add: playNarration_started [OF assms(2)])
  also have "\<dots> = active_handles ((playNarration buf w)\<lparr>nodes := nodes (stop_current w)\<rparr>) @ [length (nodes w)]"
    by (simp add: active_handles_snoc)
  also have "active_handles ((playNarration buf w)\<lparr>nodes := nodes (stop_current w)\<rparr>) = active_handles (stop_current w)"
    by (rule active_handles_cong) simp
  finally show ?thesis by (simp add: active_handles_stop_current [OF assms(1)])
qed

lemma playback_inv_playNarration:
  assumes "playback_inv w"
  shows "playback_inv (playNarration buf w)"
proof (cases "audioContextRef w")
  case None
  then show ?thesis using assms by (simp add: playNarration_def)
next
  case (Some ctx)
  then have c: "audioContextRef w \<noteq> None" by simp
  show ?thesis
    by (simp add: playback_inv_def active_handles_playNarration [OF assms c]
        playNarration_started [OF c])
qed

lemma playback_inv_stop_current: "playback_inv w \<Longrightarrow> playback_inv (stop_current w)"
  by (simp add: playback_inv_def active_handles_stop_current)

lemma playback_inv_setState [simp]: "playback_inv (setState f w) = playback_inv w"
  by (simp add: playback_inv_def active_handles_def)

lemma playback_inv_initAudioContext [simp]: "playback_inv (initAudioContext w) = playback_inv w"
  by (simp add: playback_inv_def active_handles_def)

lemma playback_inv_initial: "playback_inv initial_world"
  by (simp add: playback_inv_def active_handles_def initial_world_def)

lemma resetTour_idem: "resetTour (resetTour w) = resetTour w"
  by (simp add: resetTour_def stop_current_setState stop_current_idem setState_setState comp_def)

lemma playback_inv_unstarted_world: "playback_inv unstarted_world"
  by (simp add: playback_inv_def active_handles_def unstarted_world_def)

lemma playback_inv_playing_world: "playback_inv playing_world"
  by (simp add: playback_inv_def active_handles_def playing_world_def)

lemma sources_of_Nil: "sources_of [] = []"
  by (simp add: sources_of_def)

lemma sources_of_Cons:
  "sources_of (c # cs) = (case web c of None \<Rightarrow> sources_of cs | Some s \<Rightarrow> s # sources_of cs)"
  by (simp add: sources_of_def split: option.splits)

lemma sources_of_map_filter: "sources_of cs = List.map_filter web cs"
  by (induction cs) (simp_all add: sources_of_Nil sources_of_Cons split: option.splits)

section \<open>The run\<close>

lemma upload_begin_fields [simp]:
  "state (upload_begin w) = (state w)\<lparr>loadingStage := Identifying, image' := None, error := None\<rparr>"
  "audioSourceRef (upload_begin w) = audioSourceRef w"
  "nodes (upload_begin w) = nodes w"
  "audioContextRef (upload_begin w) = audioContextRef (initAudioContext w)"
  "mounted (upload_begin w) = mounted w"
  by (simp_all add: upload_begin_def initAudioContext_def split: option.splits)

lemma on_base64_fields [simp]:
  "state (on_base64 b w) = (state w)\<lparr>image' := Some (''data:image/jpeg;base64,'' @ b)\<rparr>"
  "audioContextRef (on_base64 b w) = audioContextRef w"
  "audioSourceRef (on_base64 b w) = audioSourceRef w"
  "nodes (on_base64 b w) = nodes w"
  "mounted (on_base64 b w) = mounted w"
  by (simp_all add: on_base64_def)

lemma on_landmark_fields [simp]:
  "state (on_landmark lm w) = (state w)\<lparr>landmark := lm, loadingStage := Researching\<rparr>"
  "audioContextRef (on_landmark lm w) = audioContextRef w"
  "audioSourceRef (on_landmark lm w) = audioSourceRef w"
  "nodes (on_landmark lm w) = nodes w"
  "mounted (on_landmark lm w) = mounted w"
  by (simp_all add: on_landmark_def)

lemma on_history_fields [simp]:
  "state (on_history h w) = (state w)\<lparr>history := Some h, loadingStage := Narrating\<rparr>"
  "audioContextRef (on_history h w) = audioContextRef w"
  "audioSourceRef (on_history h w) = audioSourceRef w"
  "nodes (on_history h w) = nodes w"
  "mounted (on_history h w) = mounted w"
  by (simp_all add: on_history_def)

lemma on_catch_fields [simp]:
  "state (on_catch e w) = (state w)\<lparr>error := Some e, loadingStage := Idle\<rparr>"
  "audioContextRef (on_catch e w) = audioContextRef w"
  "audioSourceRef (on_catch e w) = audioSourceRef w"
  "nodes (on_catch e w) = nodes w"
  "mounted (on_catch e w) = mounted w"
  by (simp_all add: on_catch_def)

lemma on_buffer_fields [simp]:
  "state (on_buffer buf w) = (state w)\<lparr>audioBuffer := Some buf, loadingStage := Ready\<rparr>"
  "audioContextRef (on_buffer buf w) = audioContextRef w"
  "mounted (on_buffer buf w) = mounted w"
  by (simp_all add: on_buffer_def)

lemma settle_fields [simp]:
  "audioContextRef (settle w w') = audioContextRef w'"
  "audioSourceRef (settle w w') = audioSourceRef w'"
  "nodes (settle w w') = nodes w'"
  by (simp_all add: settle_def)


lemma settle_throws:
  "mounted w \<Longrightarrow> \<not> view_renders (state w') \<Longrightarrow> settle w w' = w'\<lparr>mounted := False\<rparr>"
  by (simp add: settle_def)

lemma settle_unmounted: "\<not> mounted w \<Longrightarrow> settle w w' = w'\<lparr>state := state w\<rparr>"
  by (simp add: settle_def)

lemma settle_settle:
  "mounted w' = mounted w \<Longrightarrow> settle (settle w w') (settle w w') = settle w w'"
  by (simp add: settle_def)

lemma mounted_settle:
  "mounted w' = mounted w \<Longrightarrow> mounted (settle w w') = (mounted w \<and> view_renders (state w'))"
  by (simp add: settle_def)

lemma view_renders_initial [simp]: "view_renders initial_state"
  by (simp add: view_renders_def initial_state_def truthy_def)

lemma view_renders_no_image [simp]: "view_renders (s\<lparr>image' := None\<rparr>)"
  by (simp add: view_renders_def truthy_def)

lemma view_renders_image:
  "view_renders (s\<lparr>image' := Some (''data:image/jpeg;base64,'' @ b)\<rparr>) =
     (truthy (error s) \<or> landmark_renders (landmark s))"
  by (auto simp: view_renders_def truthy_def)

lemma handleFileUpload_no_file: "handleFileUpload E None w = w"
  by (simp add: handleFileUpload_def)

text \<open>
  While every state of the run renders, the run is the chain of its updates. It starts
  mounted, with a landmark in the state that the view renders (the one of the run before
  is shown again as soon as the new image is set).
\<close>

lemma handleFileUpload_identify_fails:
  assumes "mounted w" and "landmark_renders (landmark (state w))"
    and "fileToBase64 E f = Inr b"
    and "identifyLandmark (generate_identify E) (JSON_parse E) b = Inl e"
  shows "handleFileUpload E (Some f) w = on_catch e (on_base64 b (upload_begin w))"
  using assms by (simp add: handleFileUpload_def settle_def view_renders_def truthy_def)

lemma handleFileUpload_research_fails:
  assumes "mounted w" and "landmark_renders (landmark (state w))"
    and "fileToBase64 E f = Inr b"
    and "identifyLandmark (generate_identify E) (JSON_parse E) b = Inr lm"
    and "prop_name lm = Inr nm" and "landmark_renders lm"
    and "researchLandmark (generate_research E) (ToString E) nm = Inl e"
  shows "handleFileUpload E (Some f) w = on_catch e (on_landmark lm (on_base64 b (upload_begin w)))"
  using assms by (simp add: handleFileUpload_def settle_def view_renders_def truthy_def)

lemma handleFileUpload_narrate_fails:
  assumes "mounted w" and "landmark_renders (landmark (state w))"
    and "fileToBase64 E f = Inr b"
    and "identifyLandmark (generate_identify E) (JSON_parse E) b = Inr lm"
    and "prop_name lm = Inr nm" and "landmark_renders lm"
    and "researchLandmark (generate_research E) (ToString E) nm = Inr h"
    and "narrateHistory (generate_speech E) (narration_text (ToString E) nm h) = Inl e"
  shows "handleFileUpload E (Some f) w =
           on_catch e (on_history h (on_landmark lm (on_base64 b (upload_begin w))))"
  using assms by (simp add: handleFileUpload_def settle_def view_renders_def truthy_def)

lemma handleFileUpload_succeeds:
  assumes "mounted w" and "landmark_renders (landmark (state w))"
    and "fileToBase64 E f = Inr b"
    and "identifyLandmark (generate_identify E) (JSON_parse E) b = Inr lm"
    and "prop_name lm = Inr nm" and "landmark_renders lm"
    and "researchLandmark (generate_research E) (ToString E) nm = Inr h"
    and "narrateHistory (generate_speech E) (narration_text (ToString E) nm h) = Inr a"
    and "decodeBase64_of E a = Inr d"
    and "decodeAudioData E d (audioContextRef (initAudioContext w)) = Inr buf"
  shows "handleFileUpload E (Some f) w =
           on_buffer buf (on_history h (on_landmark lm (on_base64 b (upload_begin w))))"
  using assms by (simp add: handleFileUpload_def settle_def view_renders_def truthy_def)

text \<open>
  A landmark that the view cannot render, arriving while the image is shown: the render
  throws and the component is unmounted with that landmark the last thing it was given;
  the run goes on, its later updates are dropped, and its narration is played.
\<close>

lemma handleFileUpload_unmounts:
  assumes "mounted w" and "landmark_renders (landmark (state w))"
    and "fileToBase64 E f = Inr b"
    and "identifyLandmark (generate_identify E) (JSON_parse E) b = Inr lm"
    and "prop_name lm = Inr nm" and "\<not> landmark_renders lm"
    and "researchLandmark (generate_research E) (ToString E) nm = Inr h"
    and "narrateHistory (generate_speech E) (narration_text (ToString E) nm h) = Inr a"
    and "decodeBase64_of E a = Inr d"
    and "decodeAudioData E d (audioContextRef (initAudioContext w)) = Inr buf"
  shows "handleFileUpload E (Some f) w =
           (playNarration buf (on_landmark lm (on_base64 b (upload_begin w))))\<lparr>mounted := False\<rparr>"
  using assms
  by (simp add: handleFileUpload_def settle_def view_renders_def truthy_def on_buffer_def
      playNarration_def setState_def on_history_def on_landmark_def stop_current_def Let_def
      split: option.splits sum.splits)

lemma run_events_snoc: "run_events E (evs @ [ev]) = step E ev (run_events E evs)"
  by (simp add: run_events_def)

lemma run_events_Nil: "run_events E [] = (initial_world, [])"
  by (simp add: run_events_def)

text \<open>The run in one piece is the run resumed await by await.\<close>

lemma handleFileUpload_as_events:
  assumes "mounted w" and "loadingStage (state w) = Idle"
  shows "fst (foldl (\<lambda>s ev. step E ev s) (w, []) (Upload (Some f) # replicate 5 (Resume 0))) =
     handleFileUpload E (Some f) w"
  using assms
  by (simp add: handleFileUpload_def resume_def numeral_eq_Suc Let_def upload_input_rendered_def
      settle_settle split: sum.splits)

section \<open>The session, step by step\<close>

lemma session_env_fields [simp]:
  "fileToBase64 session_env = (\<lambda>f. Inr ''/9j/'')"
  "generate_identify session_env = (\<lambda>b. Inr \<lparr>resp_text = Some eiffel_json, candidates = None\<rparr>)"
  "generate_research session_env = (\<lambda>p. Inr research_response)"
  "generate_speech session_env = (\<lambda>p. Inr (audio_response ''AAD/fw==''))"
  "JSON_parse session_env = parse_session"
  "ToString session_env = (\<lambda>v. ''[object Object]'')"
  "decodeBase64_of session_env = decodeBase64"
  "decodeAudioData session_env = (\<lambda>bytes ctx. Inr (decodeAudioSamples bytes 24000))"
  by (simp_all add: session_env_def)

lemma eiffel_json_neq [simp]: "eiffel_json \<noteq> []" "eiffel_json \<noteq> ''{}''" "eiffel_json \<noteq> ''null''"
  by (simp_all add: eiffel_json_def)

lemma parse_session_simps [simp]:
  "parse_session eiffel_json = Some eiffel"
  "parse_session ''{}'' = Some (JObj [])"
  "parse_session ''null'' = Some JNull"
  by (simp_all add: parse_session_def eiffel_json_def)

lemma session_identify:
  "identifyLandmark (\<lambda>b. Inr \<lparr>resp_text = Some eiffel_json, candidates = None\<rparr>) parse_session b = Inr eiffel"
  by (simp add: identifyLandmark_def or_else_def)

lemma session_name: "prop_name eiffel = Inr (JStr ''Eiffel Tower'')"
  by (simp add: prop_name_def eiffel_def)

lemma session_research:
  "researchLandmark (\<lambda>p. Inr research_response) ts nm = Inr session_history"
  by (simp add: researchLandmark_def research_response_def or_else_def groundingChunks_of_def
      first_of_def sources_of_def session_history_def wikipedia_def)

lemma base64Audio_of_audio_response: "base64Audio_of (audio_response d) = Some d"
  by (simp add: base64Audio_of_def audio_response_def first_of_def)

lemma session_narrate:
  "d \<noteq> [] \<Longrightarrow> narrateHistory (\<lambda>p. Inr (audio_response d)) txt = Inr d"
  by (simp add: narrateHistory_def base64Audio_of_audio_response)

lemma b64_index_simps:
  "b64_index CHR ''A'' = Some 0" "b64_index CHR ''D'' = Some 3" "b64_index CHR ''/'' = Some 63"
  "b64_index CHR ''f'' = Some 31" "b64_index CHR ''w'' = Some 48" "b64_index CHR ''!'' = None"
  by (simp_all add: b64_index_def b64_alphabet_def)

lemma session_decodeBase64: "decodeBase64 ''AAD/fw=='' = Inr [0, 0, 0xFF, 0x7F]"
  by (simp add: decodeBase64_def b64_index_simps)

lemma session_samples: "decodeAudioSamples [0, 0, 0xFF, 0x7F] 24000 = session_buffer"
proof -
  have "real_of_int (sint (word_cat (0x7F :: byte) (0xFF :: byte) :: 16 word)) = 32767"
    unfolding sint_cat16 by (simp add: int16_le_def)
  moreover have "real_of_int (sint (word_cat (0 :: byte) (0 :: byte) :: 16 word)) = 0"
    unfolding sint_cat16 by (simp add: int16_le_def)
  ultimately show ?thesis
    by (simp add: decodeAudioSamples_def session_buffer_def)
qed


lemma playback_inv_on [simp]:
  "playback_inv (on_catch e w) = playback_inv w"
  "playback_inv (on_base64 b w) = playback_inv w"
  "playback_inv (on_landmark lm w) = playback_inv w"
  "playback_inv (on_history h w) = playback_inv w"
  "playback_inv (upload_begin w) = playback_inv w"
  by (simp_all add: on_catch_def on_base64_def on_landmark_def on_history_def upload_begin_def)

lemma playback_inv_settle [simp]: "playback_inv (settle w w') = playback_inv w'"
  by (simp add: playback_inv_def active_handles_def)

lemma active_handles_settle [simp]: "active_handles (settle w w') = active_handles w'"
  by (simp add: active_handles_def)

lemma initial_world_fields [simp]:
  "mounted initial_world" "state initial_world = initial_state"
  "audioContextRef initial_world = None" "nodes initial_world = []"
  by (simp_all add: initial_world_def)

lemma landmark_renders_null [simp]: "landmark_renders JNull"
  by (simp add: landmark_renders_def)

lemma landmark_renders_initial [simp]: "landmark_renders (landmark initial_state)"
  by (simp add: initial_state_def)

lemma landmark_renders_eiffel [simp]: "landmark_renders eiffel"
  by (simp add: landmark_renders_def poi_renders_def eiffel_def js_prop_def)

lemma playback_inv_on_buffer: "playback_inv w \<Longrightarrow> playback_inv (on_buffer buf w)"
  by (simp add: on_buffer_def playback_inv_playNarration)

lemma playback_inv_resetTour: "playback_inv w \<Longrightarrow> playback_inv (resetTour w)"
  by (simp add: resetTour_def playback_inv_stop_current)

lemma resume_inv: "playback_inv w \<Longrightarrow> playback_inv (fst (resume E p w))"
  by (cases p) (simp_all add: resume_def Let_def playback_inv_on_buffer split: sum.splits)

lemma resume_ctx: "audioContextRef (fst (resume E p w)) = audioContextRef w"
  by (cases p) (simp_all add: resume_def Let_def split: sum.splits)

lemma playback_inv_ended:
  assumes "playback_inv w"
  shows "playback_inv (w\<lparr>nodes := (nodes w)[h := (nodes w ! h)\<lparr>status := Finished\<rparr>]\<rparr>)"
proof -
  let ?w = "w\<lparr>nodes := (nodes w)[h := (nodes w ! h)\<lparr>status := Finished\<rparr>]\<rparr>"
  have "status (nodes w ! x) = Playing"
    if "x < length (nodes w)" and "status (nodes ?w ! x) = Playing" for x
    using that by (cases "x = h") simp_all
  then have "set (active_handles ?w) \<subseteq> set (active_handles w)"
    by (auto simp: set_active_handles)
  with assms show ?thesis by (auto simp: playback_inv_def)
qed

lemma ctx_settle:
  assumes "state w' = state w \<or> audioContextRef w' \<noteq> None \<or> audioBuffer (state w') = None"
  shows "audioContextRef w' = None \<longrightarrow> audioBuffer (state w) = None \<longrightarrow>
         audioBuffer (state (settle w w')) = None"
  using assms by (auto simp: settle_def)

lemma step_inv:
  assumes "playback_inv (fst s)" and "ctx_ready s"
  shows "playback_inv (fst (step E ev s)) \<and> ctx_ready (step E ev s)"
proof (cases s)
  case (Pair w ps)
  with assms have i: "playback_inv w"
    and c: "audioContextRef w = None \<longrightarrow> ps = [] \<and> audioBuffer (state w) = None"
    by (simp_all add: ctx_ready_def)
  show ?thesis
  proof (cases ev)
    case (Upload chosen)
    with Pair i c show ?thesis by (cases chosen) (simp_all add: ctx_ready_def)
  next
    case (Resume k)
    show ?thesis
    proof (cases "k < length ps")
      case True
      with c have "audioContextRef w \<noteq> None" by auto
      then have "audioContextRef (fst (resume E (ps ! k) w)) \<noteq> None"
        by (simp add: resume_ctx)
      moreover have "playback_inv (fst (resume E (ps ! k) w))"
        by (rule resume_inv [OF i])
      ultimately show ?thesis
        using Pair Resume True
        by (cases "resume E (ps ! k) w") (auto simp: ctx_ready_def split: option.splits)
    next
      case False
      with Pair Resume i c show ?thesis by (simp add: ctx_ready_def)
    qed
  next
    case Reset
    have "audioBuffer (state (settle w (resetTour w))) = None" if "audioBuffer (state w) = None"
      using that by (simp add: settle_def resetTour_def initial_state_def)
    with Pair Reset i c show ?thesis
      by (simp add: ctx_ready_def playback_inv_resetTour) (simp add: resetTour_def)
  next
    case Replay
    with Pair i c show ?thesis
      by (auto simp: ctx_ready_def playback_inv_playNarration split: option.splits)
  next
    case (PlaybackEnded h)
    with Pair i c show ?thesis
      by (simp add: ctx_ready_def playback_inv_ended)
  qed
qed

lemma reachable_inv:
  "playback_inv (fst (run_events E evs)) \<and> ctx_ready (run_events E evs)"
proof (induction evs rule: rev_induct)
  case Nil
  show ?case
    by (simp add: run_events_Nil playback_inv_initial ctx_ready_def)
      (simp add: initial_world_def initial_state_def)
next
  case (snoc ev evs)
  then show ?case by (simp add: run_events_snoc step_inv)
qed

lemma session_run:
  assumes "mounted w" and "landmark_renders (landmark (state w))"
  shows "handleFileUpload session_env (Some photo) w =
     on_buffer session_buffer (on_history session_history (on_landmark eiffel
       (on_base64 ''/9j/'' (upload_begin w))))"
  by (rule handleFileUpload_succeeds [OF assms, where nm = "JStr ''Eiffel Tower''"
        and a = "''AAD/fw==''" and d = "[0, 0, 0xFF, 0x7F]"])
    (simp_all add: session_identify session_name session_research session_narrate
      session_decodeBase64 session_samples)




lemma replay_has_context:
  "audioBuffer (state (fst (run_events E evs))) \<noteq> None \<Longrightarrow>
   audioContextRef (fst (run_events E evs)) \<noteq> None"
  using reachable_inv [of E evs] by (auto simp: ctx_ready_def)

lemma pending_has_context:
  "snd (run_events E evs) \<noteq> [] \<Longrightarrow> audioContextRef (fst (run_events E evs)) \<noteq> None"
  using reachable_inv [of E evs] by (auto simp: ctx_ready_def)







text \<open>
  A text that \<open>JSON.parse\<close> rejects is a failure of the identification stage, as a remote
  call that rejects is.
\<close>

lemma unparsable_identification_fails:
  assumes "mounted w" and "landmark_renders (landmark (state w))"
    and "fileToBase64 E f = Inr b" and "generate_identify E b = Inr response"
    and "JSON_parse E (or_else (resp_text response) ''{}'') = None"
  shows "handleFileUpload E (Some f) w =
           on_catch ''Failed to parse landmark identification data.'' (on_base64 b (upload_begin w))"
proof -
  have "identifyLandmark (generate_identify E) (JSON_parse E) b =
      Inl ''Failed to parse landmark identification data.''"
    using assms(4,5) by (simp add: identifyLandmark_def)
  then show ?thesis
    by (rule handleFileUpload_identify_fails [OF assms(1-3)])
qed

section \<open>The claims\<close>

subsection \<open>C1\<close>

text \<open>
  Claim C1 as stated (a failure clears the content fields) fails: when the research call
  fails, the image and the landmark of the run stay in the state.
\<close>

theorem research_failure_retains_landmark:
  "state (handleFileUpload offline_research_env (Some photo) initial_world) =
     \<lparr>image' = Some ''data:image/jpeg;base64,/9j/'', landmark = eiffel, history = None,
      audioBuffer = None, loadingStage = Idle, error = Some ''Network error''\<rparr>"
proof -
  have "handleFileUpload offline_research_env (Some photo) initial_world =
      on_catch ''Network error'' (on_landmark eiffel (on_base64 ''/9j/'' (upload_begin initial_world)))"
    by (rule handleFileUpload_research_fails [where nm = "JStr ''Eiffel Tower''"])
      (simp_all add: offline_research_env_def session_identify session_name researchLandmark_def)
  then show ?thesis
    by (simp add: initial_world_def initial_state_def)
qed

text \<open>
  Claim C1, as the code has it. The component is mounted and the view renders the landmark
  it holds and the one the run identifies. When the call of a stage fails, the run ends
  with \<open>loadingStage\<close> idle and \<open>error\<close> the message of the failure, the component still
  mounted, and starts no playback. The \<open>catch\<close> sets those two fields only: the image and
  the results of the stages that completed stay in the state, the other fields keep the
  value they had before the run.
\<close>

theorem stage_failure_keeps_fields:
  assumes "mounted w" and "landmark_renders (landmark (state w))"
    and "fileToBase64 E f = Inr b"
  shows
    "(identifyLandmark (generate_identify E) (JSON_parse E) b = Inl e \<longrightarrow>
        state (handleFileUpload E (Some f) w) =
          (state w)\<lparr>image' := Some (''data:image/jpeg;base64,'' @ b),
                    loadingStage := Idle, error := Some e\<rparr>
        \<and> mounted (handleFileUpload E (Some f) w)
        \<and> nodes (handleFileUpload E (Some f) w) = nodes w)
     \<and> (\<forall>lm nm.
          identifyLandmark (generate_identify E) (JSON_parse E) b = Inr lm \<and>
          prop_name lm = Inr nm \<and> landmark_renders lm \<and>
          researchLandmark (generate_research E) (ToString E) nm = Inl e \<longrightarrow>
        state (handleFileUpload E (Some f) w) =
          (state w)\<lparr>image' := Some (''data:image/jpeg;base64,'' @ b), landmark := lm,
                    loadingStage := Idle, error := Some e\<rparr>
        \<and> mounted (handleFileUpload E (Some f) w)
        \<and> nodes (handleFileUpload E (Some f) w) = nodes w)
     \<and> (\<forall>lm nm h.
          identifyLandmark (generate_identify E) (JSON_parse E) b = Inr lm \<and>
          prop_name lm = Inr nm \<and> landmark_renders lm \<and>
          researchLandmark (generate_research E) (ToString E) nm = Inr h \<and>
          narrateHistory (generate_speech E) (narration_text (ToString E) nm h) = Inl e \<longrightarrow>
        state (handleFileUpload E (Some f) w) =
          (state w)\<lparr>image' := Some (''data:image/jpeg;base64,'' @ b), landmark := lm,
                    history := Some h, loadingStage := Idle, error := Some e\<rparr>
        \<and> mounted (handleFileUpload E (Some f) w)
        \<and> nodes (handleFileUpload E (Some f) w) = nodes w)"
proof (intro conjI allI impI)
  assume "identifyLandmark (generate_identify E) (JSON_parse E) b = Inl e"
  note r = handleFileUpload_identify_fails [OF assms this, of]
  show "state (handleFileUpload E (Some f) w) =
          (state w)\<lparr>image' := Some (''data:image/jpeg;base64,'' @ b),
                    loadingStage := Idle, error := Some e\<rparr>"
    by (simp add: r)
  show "mounted (handleFileUpload E (Some f) w)"
    using assms(1) by (simp add: r)
  show "nodes (handleFileUpload E (Some f) w) = nodes w"
    by (simp add: r)
next
  fix lm nm
  assume "identifyLandmark (generate_identify E) (JSON_parse E) b = Inr lm \<and>
          prop_name lm = Inr nm \<and> landmark_renders lm \<and>
          researchLandmark (generate_research E) (ToString E) nm = Inl e"
  then have r: "handleFileUpload E (Some f) w =
      on_catch e (on_landmark lm (on_base64 b (upload_begin w)))"
    using handleFileUpload_research_fails [OF assms] by blast
  show "state (handleFileUpload E (Some f) w) =
          (state w)\<lparr>image' := Some (''data:image/jpeg;base64,'' @ b), landmark := lm,
                    loadingStage := Idle, error := Some e\<rparr>"
    by (simp add: r)
  show "mounted (handleFileUpload E (Some f) w)"
    using assms(1) by (simp add: r)
  show "nodes (handleFileUpload E (Some f) w) = nodes w"
    by (simp add: r)
next
  fix lm nm h
  assume "identifyLandmark (generate_identify E) (JSON_parse E) b = Inr lm \<and>
          prop_name lm = Inr nm \<and> landmark_renders lm \<and>
          researchLandmark (generate_research E) (ToString E) nm = Inr h \<and>
          narrateHistory (generate_speech E) (narration_text (ToString E) nm h) = Inl e"
  then have r: "handleFileUpload E (Some f) w =
      on_catch e (on_history h (on_landmark lm (on_base64 b (upload_begin w))))"
    using handleFileUpload_narrate_fails [OF assms] by blast
  show "state (handleFileUpload E (Some f) w) =
          (state w)\<lparr>image' := Some (''data:image/jpeg;base64,'' @ b), landmark := lm,
                    history := Some h, loadingStage := Idle, error := Some e\<rparr>"
    by (simp add: r)
  show "mounted (handleFileUpload E (Some f) w)"
    using assms(1) by (simp add: r)
  show "nodes (handleFileUpload E (Some f) w) = nodes w"
    by (simp add: r)
qed

text \<open>C1 at a failure of each of the three stages.\<close>

theorem stage_failure_keeps_fields_witness:
  "mounted playing_world \<and> landmark_renders (landmark (state playing_world)) \<and>
   mounted initial_world \<and> landmark_renders (landmark (state initial_world)) \<and>
   landmark_renders eiffel \<and>
   fileToBase64 offline_identify_env photo = Inr ''/9j/'' \<and>
   identifyLandmark (generate_identify offline_identify_env) (JSON_parse offline_identify_env) ''/9j/''
     = Inl ''Quota exceeded'' \<and>
   state (handleFileUpload offline_identify_env (Some photo) playing_world) =
     session_state\<lparr>image' := Some ''data:image/jpeg;base64,/9j/'', loadingStage := Idle,
                    error := Some ''Quota exceeded''\<rparr> \<and>
   identifyLandmark (generate_identify offline_research_env) (JSON_parse offline_research_env) ''/9j/''
     = Inr eiffel \<and>
   researchLandmark (generate_research offline_research_env) (ToString offline_research_env)
     (JStr ''Eiffel Tower'') = Inl ''Network error'' \<and>
   state (handleFileUpload offline_research_env (Some photo) initial_world) =
     initial_state\<lparr>image' := Some ''data:image/jpeg;base64,/9j/'', landmark := eiffel,
                    error := Some ''Network error''\<rparr> \<and>
   narrateHistory (generate_speech silent_env)
     (narration_text (ToString silent_env) (JStr ''Eiffel Tower'') session_history)
     = Inl ''No audio data generated.'' \<and>
   state (handleFileUpload silent_env (Some photo) initial_world) =
     initial_state\<lparr>image' := Some ''data:image/jpeg;base64,/9j/'', landmark := eiffel,
                    history := Some session_history, error := Some ''No audio data generated.''\<rparr>"
proof -
  have mp: "mounted playing_world" and rp: "landmark_renders (landmark (state playing_world))"
    by (simp_all add: playing_world_def session_state_def)
  have mi: "mounted initial_world" and ri: "landmark_renders (landmark (state initial_world))"
    by simp_all
  have a1: "fileToBase64 offline_identify_env photo = Inr ''/9j/''"
    by (simp add: offline_identify_env_def)
  have a2: "identifyLandmark (generate_identify offline_identify_env)
      (JSON_parse offline_identify_env) ''/9j/'' = Inl ''Quota exceeded''"
    by (simp add: offline_identify_env_def identifyLandmark_def)
  have b1: "fileToBase64 offline_research_env photo = Inr ''/9j/''"
    by (simp add: offline_research_env_def)
  have b2: "identifyLandmark (generate_identify offline_research_env)
      (JSON_parse offline_research_env) ''/9j/'' = Inr eiffel"
    by (simp add: offline_research_env_def session_identify)
  have b3: "researchLandmark (generate_research offline_research_env)
      (ToString offline_research_env) (JStr ''Eiffel Tower'') = Inl ''Network error''"
    by (simp add: offline_research_env_def researchLandmark_def)
  have c1: "fileToBase64 silent_env photo = Inr ''/9j/''"
    by (simp add: silent_env_def)
  have c2: "identifyLandmark (generate_identify silent_env) (JSON_parse silent_env) ''/9j/'' = Inr eiffel"
    by (simp add: silent_env_def session_identify)
  have c3: "researchLandmark (generate_research silent_env) (ToString silent_env)
      (JStr ''Eiffel Tower'') = Inr session_history"
    by (simp add: silent_env_def session_research)
  have c4: "narrateHistory (generate_speech silent_env)
      (narration_text (ToString silent_env) (JStr ''Eiffel Tower'') session_history)
      = Inl ''No audio data generated.''"
    by (simp add: silent_env_def narrateHistory_def base64Audio_of_def first_of_def)
  have "state (handleFileUpload offline_identify_env (Some photo) playing_world) =
     session_state\<lparr>image' := Some ''data:image/jpeg;base64,/9j/'', loadingStage := Idle,
                    error := Some ''Quota exceeded''\<rparr>"
    using stage_failure_keeps_fields [OF mp rp a1, of "''Quota exceeded''"] a2
    by (simp add: playing_world_def)
  moreover have "state (handleFileUpload offline_research_env (Some photo) initial_world) =
     initial_state\<lparr>image' := Some ''data:image/jpeg;base64,/9j/'', landmark := eiffel,
                    error := Some ''Network error''\<rparr>"
    using stage_failure_keeps_fields [OF mi ri b1, of "''Network error''"] b2 b3 session_name
      landmark_renders_eiffel
    by (simp add: initial_state_def)
  moreover have "state (handleFileUpload silent_env (Some photo) initial_world) =
     initial_state\<lparr>image' := Some ''data:image/jpeg;base64,/9j/'', landmark := eiffel,
                    history := Some session_history, error := Some ''No audio data generated.''\<rparr>"
    using stage_failure_keeps_fields [OF mi ri c1, of "''No audio data generated.''"] c2 c3 c4
      session_name landmark_renders_eiffel
    by (simp add: initial_state_def)
  ultimately show ?thesis
    using mp rp a1 a2 b2 b3 c4 by simp
qed

subsection \<open>C2\<close>

text \<open>
  Claim C2 as stated (the text sent never exceeds 1000 characters) fails: for a text of
  1000 code units the request has 1048.
\<close>

theorem narration_prompt_exceeds_1000:
  "length (narration_prompt (replicate 1000 (CHR ''a''))) = 1048"
  by (simp add: narration_prompt_def)

text \<open>
  Claim C2, as the code has it. The request text is a fixed instruction of 48 code units
  followed by the first 1000 code units of the text \<open>narrateHistory\<close> is given (the
  landmark's name, a full stop and the story): what is cut to 1000 is that text, and the
  request itself has at most 1048 code units. The remote call is made with this request
  and with no other.
\<close>

theorem narration_prompt_cap:
  "narration_prompt txt = ''Speak in a warm, professional tour guide voice: '' @ take 1000 txt
   \<and> length (take 1000 txt) \<le> 1000
   \<and> length (narration_prompt txt) \<le> 1048
   \<and> narrateHistory generate txt =
       narrateHistory (\<lambda>p. if p = narration_prompt txt then generate p else Inl []) txt"
  by (simp add: narration_prompt_def narrateHistory_def)

subsection \<open>C3\<close>



subsection \<open>C4\<close>



subsection \<open>C5\<close>




subsection \<open>C6\<close>

text \<open>
  Claim C6 at an identification response that has no text. \<open>identifyLandmark\<close> reads it as
  \<open>{}\<close> and resolves to that object, which has none of the required fields. The run
  stores it and asks for the history of \<open>undefined\<close>; the render of the stored landmark
  throws on \<open>pointsOfInterest.map\<close> and the component is unmounted, at the research stage
  and with no error; the run goes on and plays its narration. The claim asks for an
  identification failure there, as \<open>unparsable_identification_fails\<close> shows for a text
  that does not parse.
\<close>

theorem absent_identification_unmounts:
  "identifyLandmark (generate_identify empty_identify_env) (JSON_parse empty_identify_env) ''/9j/''
     = Inr (JObj []) \<and>
   researchLandmark (generate_research empty_identify_env) (ToString empty_identify_env) JUndefined
     = Inr \<lparr>fullStory = ''Research the historical significance and interesting facts about undefined. Provide a detailed and engaging historical narrative. Focus on why it is important today.'',
            sources = []\<rparr> \<and>
   handleFileUpload empty_identify_env (Some photo) initial_world =
     \<lparr>state = \<lparr>image' = Some ''data:image/jpeg;base64,/9j/'', landmark = JObj [],
               history = None, audioBuffer = None, loadingStage = Researching, error = None\<rparr>,
      audioContextRef = Some \<lparr>ctx_sampleRate = 24000\<rparr>, audioSourceRef = Some 0,
      nodes = [\<lparr>buffer = Some session_buffer, status = Playing\<rparr>], mounted = False\<rparr>"
proof -
  let ?h = "\<lparr>fullStory = ''Research the historical significance and interesting facts about undefined. Provide a detailed and engaging historical narrative. Focus on why it is important today.'',
             sources = []\<rparr>"
  have 2: "identifyLandmark (generate_identify empty_identify_env) (JSON_parse empty_identify_env) ''/9j/''
     = Inr (JObj [])"
    by (simp add: empty_identify_env_def identifyLandmark_def or_else_def)
  have 3: "prop_name (JObj []) = Inr JUndefined"
    by (simp add: prop_name_def)
  have n: "\<not> landmark_renders (JObj [])"
    by (simp add: landmark_renders_def js_prop_def)
  have 4: "researchLandmark (generate_research empty_identify_env) (ToString empty_identify_env)
      JUndefined = Inr ?h"
    by (simp add: empty_identify_env_def researchLandmark_def research_prompt_def template_str_def
        or_else_def groundingChunks_of_def first_of_def sources_of_def)
  have "handleFileUpload empty_identify_env (Some photo) initial_world =
      (playNarration session_buffer (on_landmark (JObj [])
        (on_base64 ''/9j/'' (upload_begin initial_world))))\<lparr>mounted := False\<rparr>"
    by (rule handleFileUpload_unmounts [OF _ _ _ 2 3 n 4, where a = "''AAD/fw==''"
          and d = "[0, 0, 0xFF, 0x7F]"])
      (simp_all add: empty_identify_env_def session_narrate session_decodeBase64 session_samples)
  then show ?thesis
    using 2 4
    by (simp add: playNarration_def stop_current_def on_landmark_def on_base64_def upload_begin_def
        initAudioContext_def setState_def initial_world_def initial_state_def)
qed

subsection \<open>C7\<close>

text \<open>
  Claim C7. Where the audio context exists (it does wherever \<open>playNarration\<close> is called,
  see \<open>reachable_inv\<close>) and at most the source of \<open>audioSourceRef\<close> is playing: after
  \<open>playNarration A\<close> and then \<open>playNarration B\<close> exactly one source is playing, it is the
  one \<open>audioSourceRef\<close> holds and it is bound to \<open>B\<close>; the source started for \<open>A\<close> has been
  stopped. Stopping a source that was never started raises and the \<open>try\<close> swallows it,
  stopping one that has stopped changes nothing (\<open>stop_current_swallows\<close>,
  \<open>stop_current_stopped\<close>): the statement holds whatever the source of the ref was.
\<close>

theorem play_twice_one_handle:
  assumes "playback_inv w" and "audioContextRef w \<noteq> None"
  shows "\<exists>h. active_handles (playNarration B (playNarration A w)) = [h]
           \<and> audioSourceRef (playNarration B (playNarration A w)) = Some h
           \<and> buffer (nodes (playNarration B (playNarration A w)) ! h) = Some B
           \<and> h = Suc (length (nodes w))
           \<and> nodes (playNarration B (playNarration A w)) ! length (nodes w) =
               \<lparr>buffer = Some A, status = Finished\<rparr>"
proof -
  let ?w1 = "playNarration A w"
  let ?n = "length (nodes w)"
  have inv1: "playback_inv ?w1" by (rule playback_inv_playNarration [OF assms(1)])
  have ctx1: "audioContextRef ?w1 \<noteq> None" using assms(2) by simp
  have len1: "length (nodes ?w1) = Suc ?n"
    by (simp add: playNarration_started(1) [OF assms(2)])
  have ref1: "audioSourceRef ?w1 = Some ?n"
    by (rule playNarration_started(2) [OF assms(2)])
  have node1: "nodes ?w1 ! ?n = \<lparr>buffer = Some A, status = Playing\<rparr>"
    by (simp add: playNarration_started(1) [OF assms(2)] nth_append)
  have "active_handles (playNarration B ?w1) = [Suc ?n]"
    using active_handles_playNarration [OF inv1 ctx1, of B] by (simp add: len1)
  moreover have "audioSourceRef (playNarration B ?w1) = Some (Suc ?n)"
    using playNarration_started(2) [OF ctx1, of B] by (simp add: len1)
  moreover have "buffer (nodes (playNarration B ?w1) ! Suc ?n) = Some B"
    by (simp add: playNarration_started(1) [OF ctx1] nth_append len1)
  moreover have "nodes (playNarration B ?w1) ! ?n = \<lparr>buffer = Some A, status = Finished\<rparr>"
    by (simp add: playNarration_started(1) [OF ctx1] nth_append len1 nth_stop_current ref1 node1)
  ultimately show ?thesis by blast
qed

text \<open>C7 at a world whose current source was never started.\<close>

theorem play_twice_one_handle_witness:
  "playback_inv unstarted_world \<and> audioContextRef unstarted_world \<noteq> None \<and>
   (\<exists>h. active_handles (playNarration quiet_buffer (playNarration session_buffer unstarted_world)) = [h]
      \<and> audioSourceRef (playNarration quiet_buffer (playNarration session_buffer unstarted_world)) = Some h
      \<and> buffer (nodes (playNarration quiet_buffer (playNarration session_buffer unstarted_world)) ! h)
          = Some quiet_buffer)"
proof -
  have c: "audioContextRef unstarted_world \<noteq> None"
    by (simp add: unstarted_world_def)
  show ?thesis
    using play_twice_one_handle [OF playback_inv_unstarted_world c, of quiet_buffer session_buffer]
      playback_inv_unstarted_world c by simp
qed

subsection \<open>C8\<close>

text \<open>
  Claim C8. \<open>resetTour\<close> leaves no source playing, sets the state to the initial
  aggregate in its one \<open>setState\<close>, and is idempotent.
\<close>

theorem resetTour_initial_idempotent: 
  assumes "playback_inv w"
  shows "state (resetTour w) =
           \<lparr>image' = None, landmark = JNull, history = None, audioBuffer = None,
            loadingStage = Idle, error = None\<rparr>
         \<and> active_handles (resetTour w) = []
         \<and> resetTour (resetTour w) = resetTour w"
proof -
  have "active_handles (resetTour w) = active_handles (stop_current w)"
    by (rule active_handles_cong) (simp add: resetTour_def)
  then show ?thesis
    by (simp add: resetTour_idem active_handles_stop_current [OF assms])
      (simp add: resetTour_def initial_state_def)
qed

text \<open>C8 at the world in which the narration of the session is playing.\<close>

theorem resetTour_initial_idempotent_witness:
  "playback_inv playing_world \<and> active_handles playing_world = [0] \<and>
   state (resetTour playing_world) =
     \<lparr>image' = None, landmark = JNull, history = None, audioBuffer = None,
      loadingStage = Idle, error = None\<rparr> \<and>
   active_handles (resetTour playing_world) = [] \<and>
   resetTour (resetTour playing_world) = resetTour playing_world"
  using resetTour_initial_idempotent [OF playback_inv_playing_world] playback_inv_playing_world
  by (simp add: active_handles_def playing_world_def)

subsection \<open>C9\<close>

text \<open>
  Claim C9. \<open>decodeAudioSamples\<close> is a function of its bytes: \<open>2n\<close> and \<open>2n + 1\<close> bytes give
  \<open>n\<close> samples, sample \<open>i\<close> is the little-endian signed 16-bit integer of bytes \<open>2i\<close> and
  \<open>2i + 1\<close> divided by 32768, which lies in \<open>[-1, 1)\<close>.
\<close>

theorem decodeAudioSamples_pcm16:
  "length (channelData (decodeAudioSamples bytes rate)) = length bytes div 2
   \<and> sampleRate (decodeAudioSamples bytes rate) = rate
   \<and> (\<forall>n. length bytes = 2 * n \<or> length bytes = 2 * n + 1 \<longrightarrow>
         length (channelData (decodeAudioSamples bytes rate)) = n)
   \<and> (\<forall>i < length bytes div 2.
         channelData (decodeAudioSamples bytes rate) ! i =
           real_of_int (int16_le (bytes ! (2 * i)) (bytes ! (2 * i + 1))) / 32768
         \<and> - 1 \<le> channelData (decodeAudioSamples bytes rate) ! i
         \<and> channelData (decodeAudioSamples bytes rate) ! i < 1)"
proof -
  have len: "length (channelData (decodeAudioSamples bytes rate)) = length bytes div 2"
    by (simp add: decodeAudioSamples_def length_pcm16_samples)
  have val: "channelData (decodeAudioSamples bytes rate) ! i =
        real_of_int (int16_le (bytes ! (2 * i)) (bytes ! (2 * i + 1))) / 32768"
    if "i < length bytes div 2" for i
    using that by (simp add: decodeAudioSamples_def nth_pcm16_samples sint_cat16)
  have rng: "- 32768 \<le> int16_le lo hi \<and> int16_le lo hi < 32768" for lo hi
    using sint_ge [of "word_cat hi lo :: 16 word"] sint_lt [of "word_cat hi lo :: 16 word"]
    by (simp add: sint_cat16)
  have bnd: "- 1 \<le> real_of_int (int16_le lo hi) / 32768 \<and> real_of_int (int16_le lo hi) / 32768 < 1"
    for lo hi
    using rng [of lo hi] by (simp add: field_simps)
  have smp: "channelData (decodeAudioSamples bytes rate) ! i =
        real_of_int (int16_le (bytes ! (2 * i)) (bytes ! (2 * i + 1))) / 32768
      \<and> - 1 \<le> channelData (decodeAudioSamples bytes rate) ! i
      \<and> channelData (decodeAudioSamples bytes rate) ! i < 1"
    if "i < length bytes div 2" for i
    unfolding val [OF that] using bnd by blast
  have cnt: "length (channelData (decodeAudioSamples bytes rate)) = n"
    if "length bytes = 2 * n \<or> length bytes = 2 * n + 1" for n
    unfolding len using that by auto
  have rt: "sampleRate (decodeAudioSamples bytes rate) = rate"
    by (simp add: decodeAudioSamples_def)
  show ?thesis
    using len rt cnt smp by blast
qed

text \<open>C9 at five bytes: two samples, the fifth byte dropped.\<close>

theorem decodeAudioSamples_pcm16_witness:
  "length [0, 0, 0xFF, 0x80, 1 :: byte] = 2 * 2 + 1 \<and>
   length (channelData (decodeAudioSamples [0, 0, 0xFF, 0x80, 1] 24000)) = 2 \<and>
   channelData (decodeAudioSamples [0, 0, 0xFF, 0x80, 1] 24000) ! 0 = 0 \<and>
   channelData (decodeAudioSamples [0, 0, 0xFF, 0x80, 1] 24000) ! 1 = - 32513 / 32768"
proof -
  let ?bytes = "[0, 0, 0xFF, 0x80, 1 :: byte]"
  note c = decodeAudioSamples_pcm16 [of ?bytes 24000]
  have l: "length ?bytes div 2 = 2" by simp
  from c have len: "length (channelData (decodeAudioSamples ?bytes 24000)) = length ?bytes div 2"
    by blast
  from c have val: "\<forall>i < length ?bytes div 2.
      channelData (decodeAudioSamples ?bytes 24000) ! i =
        real_of_int (int16_le (?bytes ! (2 * i)) (?bytes ! (2 * i + 1))) / 32768"
    by blast
  have v0: "channelData (decodeAudioSamples ?bytes 24000) ! 0 = 0"
    using val [rule_format, of 0] by (simp add: int16_le_def)
  have v1: "channelData (decodeAudioSamples ?bytes 24000) ! 1 = - 32513 / 32768"
    using val [rule_format, of 1] by (simp add: int16_le_def)
  show ?thesis using len v0 v1 by simp
qed

subsection \<open>C10\<close>

text \<open>
  Claim C10. Whenever the remote call of the research stage resolves, \<open>researchLandmark\<close>
  resolves: the story is the response text, or \<open>No information found.\<close> when the text is
  absent or empty; the sources are the \<open>web\<close> entries of the grounding chunks that have
  one, in order; there are none when the candidates or the grounding metadata are absent.
\<close>

theorem researchLandmark_total:
  assumes "generate (research_prompt ts landmarkName) = Inr response"
  shows "\<exists>h. researchLandmark generate ts landmarkName = Inr h
           \<and> (resp_text response = None \<or> resp_text response = Some [] \<longrightarrow>
                fullStory h = ''No information found.'')
           \<and> (\<forall>t. resp_text response = Some t \<and> t \<noteq> [] \<longrightarrow> fullStory h = t)
           \<and> sources h = List.map_filter web (groundingChunks_of response)
           \<and> (first_of (candidates response) = None \<longrightarrow> sources h = [])
           \<and> (\<forall>c. first_of (candidates response) = Some c \<and> groundingMetadata c = None \<longrightarrow> sources h = [])"
  using assms
  by (auto simp: researchLandmark_def or_else_def sources_of_map_filter groundingChunks_of_def)

text \<open>C10 at the research response of the session.\<close>

theorem researchLandmark_total_witness:
  "generate_research session_env (research_prompt (ToString session_env) (JStr ''Eiffel Tower''))
     = Inr research_response \<and>
   researchLandmark (generate_research session_env) (ToString session_env) (JStr ''Eiffel Tower'')
     = Inr session_history"
proof -
  have g: "generate_research session_env (research_prompt (ToString session_env) (JStr ''Eiffel Tower''))
     = Inr research_response"
    by (simp add: session_env_def)
  from researchLandmark_total [of "generate_research session_env" "ToString session_env" "JStr ''Eiffel Tower''"
      research_response, OF g] obtain h where
    h: "researchLandmark (generate_research session_env) (ToString session_env) (JStr ''Eiffel Tower'') = Inr h"
    and "sources h = List.map_filter web (groundingChunks_of research_response)"
    and "\<forall>t. resp_text research_response = Some t \<and> t \<noteq> [] \<longrightarrow> fullStory h = t"
    by blast
  then have "h = session_history"
    by (simp add: research_response_def groundingChunks_of_def first_of_def
        session_history_def)
  with g h show ?thesis by simp
qed

end
